theory Spec2Isabelle
  imports Main
begin

section \<open>Python values, exceptions and the turn input\<close>

text \<open>
  The chain built by \<open>create_history_aware_retriever\<close> receives a Python dict. The values
  stored under its keys are dynamically typed; \<open>PMessage role content\<close> stands for an
  instance of \<open>BaseMessage\<close>, every other constructor for a value that is not one.
\<close>

datatype pyval =
    PNone
  | PBool bool
  | PInt int
  | PStr string
  | PList "pyval list"
  | PTuple "pyval list"
  | PMessage string pyval

type_synonym turn = "string \<rightharpoonup> pyval"

text \<open>
  Exceptions are values. \<open>ValueError\<close> carries the fixed text of the message and the
  interpolated \<open>input_vars\<close>; \<open>OtherError\<close> is any exception class not named here,
  which a collaborator may raise.
\<close>

datatype exn =
    KeyError pyval
  | IndexError
  | TypeError
  | AttributeError string
  | ValueError string "string list"
  | OtherError string

subsection \<open>Built-ins used by the source\<close>

text \<open>\<open>x.get(k, d)\<close>\<close>

definition py_get :: "turn \<Rightarrow> string \<Rightarrow> pyval \<Rightarrow> pyval" where
  "py_get x k d = (case x k of None \<Rightarrow> d | Some v \<Rightarrow> v)"

text \<open>\<open>x[k]\<close> on a dict raises \<open>KeyError(k)\<close> for a missing key.\<close>

definition py_getitem :: "turn \<Rightarrow> string \<Rightarrow> exn + pyval" where
  "py_getitem x k = (case x k of None \<Rightarrow> Inl (KeyError (PStr k)) | Some v \<Rightarrow> Inr v)"

text \<open>\<open>isinstance(v, list)\<close> and \<open>isinstance(v, BaseMessage)\<close>\<close>

fun isinstance_list :: "pyval \<Rightarrow> bool" where
  "isinstance_list (PList xs) = True"
| "isinstance_list _ = False"

fun isinstance_BaseMessage :: "pyval \<Rightarrow> bool" where
  "isinstance_BaseMessage (PMessage r c) = True"
| "isinstance_BaseMessage _ = False"

text \<open>\<open>len(v)\<close>: defined on strings, lists and tuples, a \<open>TypeError\<close> elsewhere.\<close>

fun py_len :: "pyval \<Rightarrow> exn + nat" where
  "py_len (PStr s) = Inr (length s)"
| "py_len (PList xs) = Inr (length xs)"
| "py_len (PTuple xs) = Inr (length xs)"
| "py_len _ = Inl TypeError"

text \<open>
  \<open>all(p(i) for i in v)\<close>: iterates strings (character by character), lists and tuples;
  the other values are taken as not iterable.
\<close>

fun py_all :: "(pyval \<Rightarrow> bool) \<Rightarrow> pyval \<Rightarrow> exn + bool" where
  "py_all p (PStr s) = Inr (list_all p (map (\<lambda>c. PStr [c]) s))"
| "py_all p (PList xs) = Inr (list_all p xs)"
| "py_all p (PTuple xs) = Inr (list_all p xs)"
| "py_all p _ = Inl TypeError"

text \<open>\<open>v[-1]\<close>: the last element, \<open>IndexError\<close> on an empty sequence.\<close>

fun py_last :: "pyval \<Rightarrow> exn + pyval" where
  "py_last (PStr s) = (if s = [] then Inl IndexError else Inr (PStr [last s]))"
| "py_last (PList xs) = (if xs = [] then Inl IndexError else Inr (last xs))"
| "py_last (PTuple xs) = (if xs = [] then Inl IndexError else Inr (last xs))"
| "py_last _ = Inl TypeError"

text \<open>\<open>v.content\<close>: only a message has the attribute.\<close>

fun py_content :: "pyval \<Rightarrow> exn + pyval" where
  "py_content (PMessage r c) = Inr c"
| "py_content _ = Inl (AttributeError ''content'')"

text \<open>
  Truth value of a Python value, as \<open>not v\<close> tests it: \<open>None\<close>, \<open>False\<close>, zero and the
  empty string, list and tuple are false; a message object is true.
\<close>

fun truthy :: "pyval \<Rightarrow> bool" where
  "truthy PNone = False"
| "truthy (PBool b) = b"
| "truthy (PInt i) = (i \<noteq> 0)"
| "truthy (PStr s) = (s \<noteq> [])"
| "truthy (PList xs) = (xs \<noteq> [])"
| "truthy (PTuple xs) = (xs \<noteq> [])"
| "truthy (PMessage r c) = True"

section \<open>Runnables\<close>

text \<open>
  The collaborators (prompt template, language model, output parser, retriever) are
  objects outside the function: each call may fail and may change the world they live in.
  A collaborator is a function from its argument and the world to a result and the new
  world. A runnable additionally reports the calls it made, in order.
\<close>

datatype ('p, 'm) event =
    is_Branch: Branch nat
  | is_CallLambda: CallLambda turn
  | is_CallPrompt: CallPrompt turn
  | is_CallLLM: CallLLM 'p
  | is_CallParser: CallParser 'm
  | is_CallRetriever: CallRetriever pyval

type_synonym ('i, 'o, 'w) collaborator = "'i \<Rightarrow> 'w \<Rightarrow> (exn + 'o) \<times> 'w"

type_synonym ('i, 'o, 'p, 'm, 'w) runnable =
  "'i \<Rightarrow> 'w \<Rightarrow> (exn + 'o) \<times> ('p, 'm) event list \<times> 'w"

record ('p, 'w) prompt_template =
  input_variables :: "string list"
  prompt_invoke :: "(turn, 'p, 'w) collaborator"

text \<open>Invoking a collaborator: the call is recorded, its result and world are kept.\<close>

definition call ::
  "('i \<Rightarrow> ('p, 'm) event) \<Rightarrow> ('i, 'o, 'w) collaborator \<Rightarrow> ('i, 'o, 'p, 'm, 'w) runnable" where
  "call ev f a w = (case f a w of (r, w') \<Rightarrow> (r, [ev a], w'))"

text \<open>A lambda coerced to a runnable: pure, it leaves the world alone.\<close>

definition runnable_lambda ::
  "(turn \<Rightarrow> exn + 'o) \<Rightarrow> (turn, 'o, 'p, 'm, 'w) runnable" where
  "runnable_lambda f x w = (f x, [CallLambda x], w)"

text \<open>
  Modelled from the spec: the sequence operator \<open>|\<close> of \<open>langchain_core.runnables\<close>,
  which is not among the sources. The output of the first step is the input of the
  second; an error of the first step ends the sequence and is the sequence's error
  (spec, sections 4.3 and 7: a fixed composition, errors surfaced unchanged, no retries).
\<close>

definition pipe ::
  "('i, 'a, 'p, 'm, 'w) runnable \<Rightarrow> ('a, 'o, 'p, 'm, 'w) runnable \<Rightarrow> ('i, 'o, 'p, 'm, 'w) runnable" where
  "pipe r1 r2 a w =
     (case r1 a w of
        (Inl e, t, w') \<Rightarrow> (Inl e, t, w')
      | (Inr b, t, w') \<Rightarrow> (case r2 b w' of (r, t', w'') \<Rightarrow> (r, t @ t', w'')))"

text \<open>
  Modelled from the spec: \<open>RunnableBranch\<close> of \<open>langchain_core.runnables\<close>, which is
  not among the sources. Section 4.2: a priority-ordered, first-match selector; the
  conditions are evaluated in order, the runnable of the first condition that holds is
  run, the default when none holds. A condition that raises ends the invocation with its
  error. The number of the branch that is run (the default counting as the last) is
  recorded before the calls the branch makes.
\<close>

fun runnable_branch_from ::
  "nat \<Rightarrow> (('i \<Rightarrow> exn + bool) \<times> ('i, 'o, 'p, 'm, 'w) runnable) list
     \<Rightarrow> ('i, 'o, 'p, 'm, 'w) runnable \<Rightarrow> ('i, 'o, 'p, 'm, 'w) runnable" where
  "runnable_branch_from k [] dflt x w =
     (case dflt x w of (r, t, w') \<Rightarrow> (r, Branch k # t, w'))"
| "runnable_branch_from k ((c, a) # bs) dflt x w =
     (case c x of
        Inl e \<Rightarrow> (Inl e, [], w)
      | Inr b \<Rightarrow>
          if b then (case a x w of (r, t, w') \<Rightarrow> (r, Branch k # t, w'))
          else runnable_branch_from (Suc k) bs dflt x w)"

definition RunnableBranch ::
  "(('i \<Rightarrow> exn + bool) \<times> ('i, 'o, 'p, 'm, 'w) runnable) list
     \<Rightarrow> ('i, 'o, 'p, 'm, 'w) runnable \<Rightarrow> ('i, 'o, 'p, 'm, 'w) runnable" where
  "RunnableBranch bs dflt = runnable_branch_from 1 bs dflt"

section \<open>The source: \<open>create_history_aware_retriever\<close>\<close>

text \<open>
  \<^verbatim>\<open>
  def messages_param_is_message_list(x: Dict) -> bool:
      return (
          isinstance(x.get("messages", []), list)
          and len(x.get("messages", [])) > 0
          and all(isinstance(i, BaseMessage) for i in x.get("messages", []))
      )
  \<close>
  \<open>and\<close> evaluates its right operand only when the left one is true.
\<close>

definition messages_param_is_message_list :: "turn \<Rightarrow> exn + bool" where
  "messages_param_is_message_list x =
     (if \<not> isinstance_list (py_get x ''messages'' (PList [])) then Inr False
      else (case py_len (py_get x ''messages'' (PList [])) of
              Inl e \<Rightarrow> Inl e
            | Inr n \<Rightarrow>
                if \<not> (n > 0) then Inr False
                else py_all isinstance_BaseMessage (py_get x ''messages'' (PList []))))"

text \<open>
  The three conditions of the branch, in the order of the source:
  \<^verbatim>\<open>lambda x: messages_param_is_message_list(x) and len(x.get("messages", [])) > 1\<close>,
  \<^verbatim>\<open>lambda x: messages_param_is_message_list(x) and len(x.get("messages", [])) == 1\<close>,
  \<^verbatim>\<open>lambda x: not x.get("chat_history", False)\<close>.
\<close>

definition cond_multi_turn :: "turn \<Rightarrow> exn + bool" where
  "cond_multi_turn x =
     (case messages_param_is_message_list x of
        Inl e \<Rightarrow> Inl e
      | Inr b \<Rightarrow>
          if \<not> b then Inr False
          else (case py_len (py_get x ''messages'' (PList [])) of
                  Inl e \<Rightarrow> Inl e
                | Inr n \<Rightarrow> Inr (n > 1)))"

definition cond_single_turn :: "turn \<Rightarrow> exn + bool" where
  "cond_single_turn x =
     (case messages_param_is_message_list x of
        Inl e \<Rightarrow> Inl e
      | Inr b \<Rightarrow>
          if \<not> b then Inr False
          else (case py_len (py_get x ''messages'' (PList [])) of
                  Inl e \<Rightarrow> Inl e
                | Inr n \<Rightarrow> Inr (n = 1)))"

definition cond_no_chat_history :: "turn \<Rightarrow> exn + bool" where
  "cond_no_chat_history x = Inr (\<not> truthy (py_get x ''chat_history'' (PBool False)))"

text \<open>\<^verbatim>\<open>lambda x: x["messages"][-1].content\<close> and \<^verbatim>\<open>lambda x: x["input"]\<close>\<close>

definition last_message_content :: "turn \<Rightarrow> exn + pyval" where
  "last_message_content x =
     (case py_getitem x ''messages'' of
        Inl e \<Rightarrow> Inl e
      | Inr v \<Rightarrow> (case py_last v of Inl e \<Rightarrow> Inl e | Inr m \<Rightarrow> py_content m))"

definition input_text :: "turn \<Rightarrow> exn + pyval" where
  "input_text x = py_getitem x ''input''"

text \<open>
  \<^verbatim>\<open>prompt | llm | StrOutputParser() | retriever\<close>, the expression of the first and of
  the default branch. \<open>StrOutputParser\<close> is not among the sources and is a parameter;
  the string it returns is the Python string handed to the retriever.
\<close>

definition as_pystr :: "('m, string, 'w) collaborator \<Rightarrow> ('m, pyval, 'w) collaborator" where
  "as_pystr parser m w = (case parser m w of (r, w') \<Rightarrow> (map_sum id PStr r, w'))"

definition rewrite_chain ::
  "('m, string, 'w) collaborator \<Rightarrow> ('p, 'm, 'w) collaborator
     \<Rightarrow> (pyval, 'd list, 'w) collaborator \<Rightarrow> ('p, 'w) prompt_template
     \<Rightarrow> (turn, 'd list, 'p, 'm, 'w) runnable" where
  "rewrite_chain str_output_parser llm retriever prompt =
     pipe (pipe (pipe (call CallPrompt (prompt_invoke prompt)) (call CallLLM llm))
                (call CallParser (as_pystr str_output_parser)))
          (call CallRetriever retriever)"

text \<open>
  The function itself. \<open>with_config(run_name=...)\<close> names the chain for tracing and does
  not change what it computes.
\<close>

definition create_history_aware_retriever ::
  "('m, string, 'w) collaborator \<Rightarrow> ('p, 'm, 'w) collaborator
     \<Rightarrow> (pyval, 'd list, 'w) collaborator \<Rightarrow> ('p, 'w) prompt_template
     \<Rightarrow> exn + (turn, 'd list, 'p, 'm, 'w) runnable" where
  "create_history_aware_retriever str_output_parser llm retriever prompt =
     (let input_vars = input_variables prompt in
      if ''input'' \<notin> set input_vars \<and> ''messages'' \<notin> set input_vars
      then Inl (ValueError ''Expected either `input` or `messages` to be prompt variables, but got ''
                  input_vars)
      else Inr (RunnableBranch
                  [(cond_multi_turn, rewrite_chain str_output_parser llm retriever prompt),
                   (cond_single_turn,
                      pipe (runnable_lambda last_message_content) (call CallRetriever retriever)),
                   (cond_no_chat_history,
                      pipe (runnable_lambda input_text) (call CallRetriever retriever))]
                  (rewrite_chain str_output_parser llm retriever prompt)))"

section \<open>Example collaborators\<close>

text \<open>
  Concrete collaborators on which the theorems below are instantiated. The world is a
  counter of the calls made so far. The prompt renders a fixed text, the model answers
  with a text derived from the prompt, the parser returns the model's text, and the
  retriever returns one document naming the query it was given (it rejects a query that
  is not a string).
\<close>

definition example_prompt :: "(string, nat) prompt_template" where
  "example_prompt =
     \<lparr>input_variables = [''input'', ''chat_history''],
      prompt_invoke = (\<lambda>x w. (Inr ''rephrase'', Suc w))\<rparr>"

text \<open>The template of section 8, item 5: it declares \<open>topic\<close> only.\<close>

definition topic_prompt :: "(string, nat) prompt_template" where
  "topic_prompt = example_prompt\<lparr>input_variables := [''topic'']\<rparr>"

definition example_llm :: "(string, string, nat) collaborator" where
  "example_llm p w = (Inr (p @ '' done''), Suc w)"


definition example_parser :: "(string, string, nat) collaborator" where
  "example_parser m w = (Inr m, Suc w)"

definition example_retriever :: "(pyval, string list, nat) collaborator" where
  "example_retriever q w =
     (case q of PStr s \<Rightarrow> (Inr [''doc for '' @ s], Suc w) | _ \<Rightarrow> (Inl TypeError, Suc w))"

definition example_chain :: "(turn, string list, string, string, nat) runnable" where
  "example_chain =
     projr (create_history_aware_retriever example_parser example_llm example_retriever
              example_prompt)"

text \<open>
  The turn inputs of the concrete scenario of the specification (section 8, item 7), a
  \<open>messages\<close> list with an element that is not a message, and a turn without \<open>input\<close>.
\<close>

definition three_messages :: "pyval list" where
  "three_messages =
     [PMessage ''user'' (PStr ''What is X?''),
      PMessage ''assistant'' (PStr ''X is ...''),
      PMessage ''user'' (PStr ''What about Y?'')]"

definition multi_turn_input :: turn where
  "multi_turn_input = [''messages'' \<mapsto> PList three_messages]"

definition single_turn_input :: turn where
  "single_turn_input = [''messages'' \<mapsto> PList [PMessage ''user'' (PStr ''What is X?'')]]"

definition no_history_input :: turn where
  "no_history_input = [''input'' \<mapsto> PStr ''What is X?'', ''chat_history'' \<mapsto> PList []]"

definition history_input :: turn where
  "history_input =
     [''input'' \<mapsto> PStr ''What about it?'',
      ''chat_history'' \<mapsto> PList [PStr ''What is X?'', PStr ''X is ...'']]"

definition mixed_messages_input :: turn where
  "mixed_messages_input =
     [''messages'' \<mapsto> PList [PMessage ''user'' (PStr ''What is X?''), PStr ''What about Y?''],
      ''input'' \<mapsto> PStr ''What about Y?'']"

definition no_input_key :: turn where
  "no_input_key = [''chat_history'' \<mapsto> PStr []]"


section \<open>Auxiliary facts\<close>

text \<open>The classifier and the two conditions built on it, as total predicates.\<close>

lemma mpiml_eq:
  "messages_param_is_message_list x =
     Inr (case x ''messages'' of
            Some (PList ms) \<Rightarrow> ms \<noteq> [] \<and> list_all isinstance_BaseMessage ms
          | _ \<Rightarrow> False)"
  by (simp add: messages_param_is_message_list_def py_get_def split: option.split pyval.split)

lemma cond_multi_turn_eq:
  "cond_multi_turn x =
     Inr (case x ''messages'' of
            Some (PList ms) \<Rightarrow> 1 < length ms \<and> list_all isinstance_BaseMessage ms
          | _ \<Rightarrow> False)"
  by (auto simp add: cond_multi_turn_def mpiml_eq py_get_def split: option.split pyval.split)

lemma cond_single_turn_eq:
  "cond_single_turn x =
     Inr (case x ''messages'' of
            Some (PList ms) \<Rightarrow> length ms = 1 \<and> list_all isinstance_BaseMessage ms
          | _ \<Rightarrow> False)"
  by (auto simp add: cond_single_turn_def mpiml_eq py_get_def split: option.split pyval.split)

lemma router_unfold:
  "create_history_aware_retriever P L R prompt = Inr router \<Longrightarrow>
   router x w =
     (case cond_multi_turn x of Inl e \<Rightarrow> (Inl e, [], w)
      | Inr b1 \<Rightarrow>
        if b1 then (case rewrite_chain P L R prompt x w of (r, t, w') \<Rightarrow> (r, Branch 1 # t, w'))
        else (case cond_single_turn x of Inl e \<Rightarrow> (Inl e, [], w)
         | Inr b2 \<Rightarrow>
           if b2 then (case pipe (runnable_lambda last_message_content) (call CallRetriever R) x w of
                         (r, t, w') \<Rightarrow> (r, Branch 2 # t, w'))
           else (case cond_no_chat_history x of Inl e \<Rightarrow> (Inl e, [], w)
             | Inr b3 \<Rightarrow>
               if b3 then (case pipe (runnable_lambda input_text) (call CallRetriever R) x w of
                         (r, t, w') \<Rightarrow> (r, Branch 3 # t, w'))
               else (case rewrite_chain P L R prompt x w of (r, t, w') \<Rightarrow> (r, Branch 4 # t, w')))))"
  by (auto simp add: create_history_aware_retriever_def RunnableBranch_def Let_def eval_nat_numeral
      split: if_splits sum.splits)

lemma rewrite_chain_eq:
  "rewrite_chain P L R prompt x w =
     (case prompt_invoke prompt x w of
        (Inl e, w1) \<Rightarrow> (Inl e, [CallPrompt x], w1)
      | (Inr p, w1) \<Rightarrow>
          (case L p w1 of
             (Inl e, w2) \<Rightarrow> (Inl e, [CallPrompt x, CallLLM p], w2)
           | (Inr m, w2) \<Rightarrow>
               (case P m w2 of
                  (Inl e, w3) \<Rightarrow> (Inl e, [CallPrompt x, CallLLM p, CallParser m], w3)
                | (Inr q, w3) \<Rightarrow>
                    (case R (PStr q) w3 of
                       (r, w4) \<Rightarrow>
                         (r, [CallPrompt x, CallLLM p, CallParser m, CallRetriever (PStr q)],
                          w4)))))"
  by (simp add: rewrite_chain_def pipe_def call_def as_pystr_def split: prod.split sum.split)

lemma passthrough_eq:
  "pipe (runnable_lambda f) (call CallRetriever R) x w =
     (case f x of
        Inl e \<Rightarrow> (Inl e, [CallLambda x], w)
      | Inr q \<Rightarrow> (case R q w of (r, w') \<Rightarrow> (r, [CallLambda x, CallRetriever q], w')))"
  by (simp add: pipe_def runnable_lambda_def call_def split: prod.split sum.split)

lemma example_chain_built:
  "create_history_aware_retriever example_parser example_llm example_retriever example_prompt
     = Inr example_chain"
  by (simp add: example_chain_def create_history_aware_retriever_def example_prompt_def Let_def)


section \<open>The four branches\<close>

text \<open>
  Claim C1. When \<open>messages\<close> is a list of more than one element, all of them messages,
  the chain runs the first branch: the prompt is rendered over the whole turn input, the
  language model is called on the rendered prompt, the parser on the model's output and
  the retriever on the parsed string, each step only if the one before succeeded. No
  passthrough lambda is called.
\<close>

theorem multi_turn_messages_run_rewrite_chain:
  assumes built: "create_history_aware_retriever P L R prompt = Inr router"
    and msgs: "x ''messages'' = Some (PList ms)"
    and len: "1 < length ms"
    and conf: "list_all isinstance_BaseMessage ms"
  shows "router x w =
           (case prompt_invoke prompt x w of
              (Inl e, w1) \<Rightarrow> (Inl e, [Branch 1, CallPrompt x], w1)
            | (Inr p, w1) \<Rightarrow>
                (case L p w1 of
                   (Inl e, w2) \<Rightarrow> (Inl e, [Branch 1, CallPrompt x, CallLLM p], w2)
                 | (Inr m, w2) \<Rightarrow>
                     (case P m w2 of
                        (Inl e, w3) \<Rightarrow>
                          (Inl e, [Branch 1, CallPrompt x, CallLLM p, CallParser m], w3)
                      | (Inr q, w3) \<Rightarrow>
                          (case R (PStr q) w3 of
                             (r, w4) \<Rightarrow>
                               (r, [Branch 1, CallPrompt x, CallLLM p, CallParser m,
                                    CallRetriever (PStr q)], w4)))))
         \<and> \<not> list_ex is_CallLambda (fst (snd (router x w)))"
proof -
  have c1: "cond_multi_turn x = Inr True"
    using msgs len conf by (simp add: cond_multi_turn_eq)
  have run: "router x w =
      (case rewrite_chain P L R prompt x w of (r, t, w') \<Rightarrow> (r, Branch 1 # t, w'))"
    using router_unfold [OF built, of x w] c1 by simp
  show ?thesis
    unfolding run rewrite_chain_eq
    by (simp split: prod.split sum.split)
qed

theorem multi_turn_messages_run_rewrite_chain_witness:
  "create_history_aware_retriever example_parser example_llm example_retriever example_prompt
     = Inr example_chain
   \<and> multi_turn_input ''messages'' = Some (PList three_messages)
   \<and> 1 < length three_messages
   \<and> list_all isinstance_BaseMessage three_messages
   \<and> example_chain multi_turn_input 0
      = (Inr [''doc for rephrase done''],
         [Branch 1, CallPrompt multi_turn_input, CallLLM ''rephrase'',
          CallParser ''rephrase done'', CallRetriever (PStr ''rephrase done'')],
         4)"
proof -
  have m: "multi_turn_input ''messages'' = Some (PList three_messages)"
    by (simp add: multi_turn_input_def)
  have l: "1 < length three_messages"
    by (simp add: three_messages_def)
  have a: "list_all isinstance_BaseMessage three_messages"
    by (simp add: three_messages_def)
  have "example_chain multi_turn_input 0
      = (Inr [''doc for rephrase done''],
         [Branch 1, CallPrompt multi_turn_input, CallLLM ''rephrase'',
          CallParser ''rephrase done'', CallRetriever (PStr ''rephrase done'')],
         4)"
    using multi_turn_messages_run_rewrite_chain
      [where x = multi_turn_input and ms = three_messages and w = 0,
       OF example_chain_built m l a]
    by (simp add: example_prompt_def example_llm_def example_parser_def
        example_retriever_def eval_nat_numeral)
  with m l a example_chain_built show ?thesis by simp
qed

lemma no_message_list_conds:
  assumes "\<forall>ms. x ''messages'' = Some (PList ms) \<longrightarrow> ms = [] \<or> \<not> list_all isinstance_BaseMessage ms"
  shows "messages_param_is_message_list x = Inr False"
    and "cond_multi_turn x = Inr False"
    and "cond_single_turn x = Inr False"
  using assms
  by (auto simp add: mpiml_eq cond_multi_turn_eq cond_single_turn_eq
      split: option.split pyval.split)

text \<open>
  Claim C2. When \<open>messages\<close> is a list of exactly one message, the chain runs the second
  branch: the lambda takes the content of that message and the retriever is called on it
  as it is. Neither the prompt, the language model nor the parser is called.
\<close>

theorem single_message_content_passed_verbatim:
  assumes built: "create_history_aware_retriever P L R prompt = Inr router"
    and msgs: "x ''messages'' = Some (PList [PMessage role c])"
  shows "router x w =
           (case R c w of (r, w') \<Rightarrow> (r, [Branch 2, CallLambda x, CallRetriever c], w'))
         \<and> \<not> list_ex (\<lambda>e. is_CallPrompt e \<or> is_CallLLM e \<or> is_CallParser e)
               (fst (snd (router x w)))"
proof -
  have c1: "cond_multi_turn x = Inr False"
    using msgs by (simp add: cond_multi_turn_eq)
  have c2: "cond_single_turn x = Inr True"
    using msgs by (simp add: cond_single_turn_eq)
  have content: "last_message_content x = Inr c"
    using msgs by (simp add: last_message_content_def py_getitem_def)
  have run: "router x w =
      (case R c w of (r, w') \<Rightarrow> (r, [Branch 2, CallLambda x, CallRetriever c], w'))"
    using router_unfold [OF built, of x w] c1 c2 content
    by (simp add: passthrough_eq split: prod.split)
  show ?thesis
    unfolding run by (simp split: prod.split)
qed

theorem single_message_content_passed_verbatim_witness:
  "create_history_aware_retriever example_parser example_llm example_retriever example_prompt
     = Inr example_chain
   \<and> single_turn_input ''messages'' = Some (PList [PMessage ''user'' (PStr ''What is X?'')])
   \<and> example_chain single_turn_input 0
      = (Inr [''doc for What is X?''],
         [Branch 2, CallLambda single_turn_input, CallRetriever (PStr ''What is X?'')],
         1)"
proof -
  have m: "single_turn_input ''messages'' = Some (PList [PMessage ''user'' (PStr ''What is X?'')])"
    by (simp add: single_turn_input_def)
  have "example_chain single_turn_input 0
      = (Inr [''doc for What is X?''],
         [Branch 2, CallLambda single_turn_input, CallRetriever (PStr ''What is X?'')],
         1)"
    using single_message_content_passed_verbatim
      [where x = single_turn_input and w = 0, OF example_chain_built m]
    by (simp add: example_retriever_def)
  with m example_chain_built show ?thesis by simp
qed

text \<open>
  Claim C3, amended. When \<open>messages\<close> is not a non-empty list of messages,
  \<open>chat_history\<close> is absent, the empty string, the empty list or any other false value,
  and the turn holds \<open>input\<close>, the chain runs the third branch: the retriever is called
  on the value stored under \<open>input\<close> as it is, and neither the prompt, the language
  model nor the parser is called. The claim as written leaves out that the turn must
  hold \<open>input\<close>, which the function's documentation requires of its caller.
\<close>

theorem empty_history_passes_input_verbatim:
  assumes built: "create_history_aware_retriever P L R prompt = Inr router"
    and nomsgs: "\<forall>ms. x ''messages'' = Some (PList ms) \<longrightarrow>
                   ms = [] \<or> \<not> list_all isinstance_BaseMessage ms"
    and nohist: "x ''chat_history'' = None \<or> x ''chat_history'' = Some (PStr [])
                 \<or> x ''chat_history'' = Some (PList [])
                 \<or> (\<exists>h. x ''chat_history'' = Some h \<and> \<not> truthy h)"
    and inp: "x ''input'' = Some q"
  shows "router x w =
           (case R q w of (r, w') \<Rightarrow> (r, [Branch 3, CallLambda x, CallRetriever q], w'))
         \<and> \<not> list_ex (\<lambda>e. is_CallPrompt e \<or> is_CallLLM e \<or> is_CallParser e)
               (fst (snd (router x w)))"
proof -
  have c3: "cond_no_chat_history x = Inr True"
    using nohist by (auto simp add: cond_no_chat_history_def py_get_def)
  have arg: "input_text x = Inr q"
    using inp by (simp add: input_text_def py_getitem_def)
  have run: "router x w =
      (case R q w of (r, w') \<Rightarrow> (r, [Branch 3, CallLambda x, CallRetriever q], w'))"
    using router_unfold [OF built, of x w] no_message_list_conds(2,3) [of x] nomsgs c3 arg
    by (simp add: passthrough_eq split: prod.split)
  show ?thesis
    unfolding run by (simp split: prod.split)
qed

theorem empty_history_passes_input_verbatim_witness:
  "create_history_aware_retriever example_parser example_llm example_retriever example_prompt
     = Inr example_chain
   \<and> no_history_input ''messages'' = None
   \<and> no_history_input ''chat_history'' = Some (PList [])
   \<and> no_history_input ''input'' = Some (PStr ''What is X?'')
   \<and> example_chain no_history_input 0
      = (Inr [''doc for What is X?''],
         [Branch 3, CallLambda no_history_input, CallRetriever (PStr ''What is X?'')],
         1)"
proof -
  have m: "no_history_input ''messages'' = None"
    and h: "no_history_input ''chat_history'' = Some (PList [])"
    and i: "no_history_input ''input'' = Some (PStr ''What is X?'')"
    by (simp_all add: no_history_input_def)
  have "example_chain no_history_input 0
      = (Inr [''doc for What is X?''],
         [Branch 3, CallLambda no_history_input, CallRetriever (PStr ''What is X?'')],
         1)"
    using empty_history_passes_input_verbatim
      [where x = no_history_input and w = 0 and q = "PStr ''What is X?''",
       OF example_chain_built]
      m h i
    by (simp add: example_retriever_def)
  with m h i example_chain_built show ?thesis by simp
qed

text \<open>
  Claim C3, as written, fails on a turn that holds no \<open>input\<close>: \<open>messages\<close> is absent
  and \<open>chat_history\<close> is the empty string, yet the invocation ends with
  \<open>KeyError('input')\<close> and the retriever is not called.
\<close>

theorem empty_history_without_input_counterexample:
  "create_history_aware_retriever example_parser example_llm example_retriever example_prompt
     = Inr example_chain
   \<and> no_input_key ''messages'' = None
   \<and> no_input_key ''chat_history'' = Some (PStr [])
   \<and> fst (example_chain no_input_key 0) = Inl (KeyError (PStr ''input''))
   \<and> \<not> list_ex is_CallRetriever (fst (snd (example_chain no_input_key 0)))"
proof -
  have run: "example_chain no_input_key 0
       = (Inl (KeyError (PStr ''input'')), [Branch 3, CallLambda no_input_key], 0)"
    using router_unfold [OF example_chain_built, of no_input_key 0]
    by (simp add: cond_multi_turn_eq cond_single_turn_eq cond_no_chat_history_def py_get_def
        passthrough_eq input_text_def py_getitem_def no_input_key_def)
  have "no_input_key ''messages'' = None" "no_input_key ''chat_history'' = Some (PStr [])"
    by (simp_all add: no_input_key_def)
  with run example_chain_built show ?thesis by simp
qed

text \<open>
  Claim C4. When \<open>messages\<close> is not a non-empty list of messages and \<open>chat_history\<close>
  holds a true value (a non-empty list or string in particular), the chain runs the
  default branch: the prompt is rendered over the whole turn input, which holds \<open>input\<close>
  and \<open>chat_history\<close>, then the language model, the parser and the retriever are called,
  the retriever on the string the parser returned.
\<close>

theorem non_empty_history_runs_rewrite_chain:
  assumes built: "create_history_aware_retriever P L R prompt = Inr router"
    and nomsgs: "\<forall>ms. x ''messages'' = Some (PList ms) \<longrightarrow>
                   ms = [] \<or> \<not> list_all isinstance_BaseMessage ms"
    and hist: "x ''chat_history'' = Some h"
    and nonempty: "truthy h"
  shows "router x w =
           (case prompt_invoke prompt x w of
              (Inl e, w1) \<Rightarrow> (Inl e, [Branch 4, CallPrompt x], w1)
            | (Inr p, w1) \<Rightarrow>
                (case L p w1 of
                   (Inl e, w2) \<Rightarrow> (Inl e, [Branch 4, CallPrompt x, CallLLM p], w2)
                 | (Inr m, w2) \<Rightarrow>
                     (case P m w2 of
                        (Inl e, w3) \<Rightarrow>
                          (Inl e, [Branch 4, CallPrompt x, CallLLM p, CallParser m], w3)
                      | (Inr q, w3) \<Rightarrow>
                          (case R (PStr q) w3 of
                             (r, w4) \<Rightarrow>
                               (r, [Branch 4, CallPrompt x, CallLLM p, CallParser m,
                                    CallRetriever (PStr q)], w4)))))"
proof -
  have c3: "cond_no_chat_history x = Inr False"
    using hist nonempty by (simp add: cond_no_chat_history_def py_get_def)
  have run: "router x w =
      (case rewrite_chain P L R prompt x w of (r, t, w') \<Rightarrow> (r, Branch 4 # t, w'))"
    using router_unfold [OF built, of x w] no_message_list_conds(2,3) [of x] nomsgs c3
    by simp
  show ?thesis
    unfolding run rewrite_chain_eq
    by (simp split: prod.split sum.split)
qed

theorem non_empty_history_runs_rewrite_chain_witness:
  "create_history_aware_retriever example_parser example_llm example_retriever example_prompt
     = Inr example_chain
   \<and> history_input ''messages'' = None
   \<and> history_input ''chat_history'' = Some (PList [PStr ''What is X?'', PStr ''X is ...''])
   \<and> truthy (PList [PStr ''What is X?'', PStr ''X is ...''])
   \<and> example_chain history_input 0
      = (Inr [''doc for rephrase done''],
         [Branch 4, CallPrompt history_input, CallLLM ''rephrase'',
          CallParser ''rephrase done'', CallRetriever (PStr ''rephrase done'')],
         4)"
proof -
  have m: "history_input ''messages'' = None"
    and h: "history_input ''chat_history'' = Some (PList [PStr ''What is X?'', PStr ''X is ...''])"
    by (simp_all add: history_input_def)
  have t: "truthy (PList [PStr ''What is X?'', PStr ''X is ...''])"
    by simp
  have "example_chain history_input 0
      = (Inr [''doc for rephrase done''],
         [Branch 4, CallPrompt history_input, CallLLM ''rephrase'',
          CallParser ''rephrase done'', CallRetriever (PStr ''rephrase done'')],
         4)"
    using non_empty_history_runs_rewrite_chain
      [where x = history_input and w = 0
         and h = "PList [PStr ''What is X?'', PStr ''X is ...'']",
       OF example_chain_built _ h t]
      m
    by (simp add: example_prompt_def example_llm_def example_parser_def
        example_retriever_def eval_nat_numeral)
  with m h t example_chain_built show ?thesis by simp
qed

text \<open>
  Claim C10. When \<open>messages\<close> is not a non-empty list of messages, \<open>chat_history\<close> is
  absent or false and the turn has no \<open>input\<close> key, the third branch is run and its
  lambda raises \<open>KeyError('input')\<close>: the invocation ends with that error, the retriever
  is not called and the world is unchanged.
\<close>

theorem missing_input_raises_key_error:
  assumes built: "create_history_aware_retriever P L R prompt = Inr router"
    and nomsgs: "\<forall>ms. x ''messages'' = Some (PList ms) \<longrightarrow>
                   ms = [] \<or> \<not> list_all isinstance_BaseMessage ms"
    and nohist: "x ''chat_history'' = None \<or> (\<exists>h. x ''chat_history'' = Some h \<and> \<not> truthy h)"
    and noinp: "x ''input'' = None"
  shows "router x w = (Inl (KeyError (PStr ''input'')), [Branch 3, CallLambda x], w)"
proof -
  have c3: "cond_no_chat_history x = Inr True"
    using nohist by (auto simp add: cond_no_chat_history_def py_get_def)
  have arg: "input_text x = Inl (KeyError (PStr ''input''))"
    using noinp by (simp add: input_text_def py_getitem_def)
  show ?thesis
    using router_unfold [OF built, of x w] no_message_list_conds(2,3) [of x] nomsgs c3 arg
    by (simp add: passthrough_eq)
qed

theorem missing_input_raises_key_error_witness:
  "create_history_aware_retriever example_parser example_llm example_retriever example_prompt
     = Inr example_chain
   \<and> no_input_key ''messages'' = None
   \<and> no_input_key ''chat_history'' = Some (PStr [])
   \<and> \<not> truthy (PStr [])
   \<and> no_input_key ''input'' = None
   \<and> example_chain no_input_key 0
      = (Inl (KeyError (PStr ''input'')), [Branch 3, CallLambda no_input_key], 0)"
proof -
  have m: "no_input_key ''messages'' = None"
    and h: "no_input_key ''chat_history'' = Some (PStr [])"
    and i: "no_input_key ''input'' = None"
    by (simp_all add: no_input_key_def)
  have "example_chain no_input_key 0
      = (Inl (KeyError (PStr ''input'')), [Branch 3, CallLambda no_input_key], 0)"
    using missing_input_raises_key_error
      [where x = no_input_key and w = 0, OF example_chain_built]
      m h i
    by simp
  with m h i example_chain_built show ?thesis by simp
qed

section \<open>Every invocation, by cases\<close>

text \<open>
  The conditions are total, so an invocation falls into one of five cases: one per
  branch, the third split by whether the turn holds \<open>input\<close>.
\<close>

lemma conds_total:
  "\<not> isl (messages_param_is_message_list y)"
  "\<not> isl (cond_multi_turn y)"
  "\<not> isl (cond_single_turn y)"
  "\<not> isl (cond_no_chat_history y)"
  by (simp_all add: mpiml_eq cond_multi_turn_eq cond_single_turn_eq cond_no_chat_history_def)

lemma single_turn_content:
  assumes "cond_single_turn x = Inr True"
  shows "\<exists>c. last_message_content x = Inr c"
proof -
  from assms obtain ms where ms: "x ''messages'' = Some (PList ms)"
    and len: "length ms = 1" and conf: "list_all isinstance_BaseMessage ms"
    by (auto simp add: cond_single_turn_eq split: option.splits pyval.splits)
  from len obtain m where m: "ms = [m]"
    by (cases ms) auto
  with conf obtain r c where "m = PMessage r c"
    by (cases m) auto
  with ms m show ?thesis
    by (simp add: last_message_content_def py_getitem_def)
qed

lemma router_cases [consumes 1, case_names multi single nohist missing dflt]:
  assumes built: "create_history_aware_retriever P L R prompt = Inr router"
  obtains
    (multi) "cond_multi_turn x = Inr True"
      "router x w =
         (case rewrite_chain P L R prompt x w of (r, t, w') \<Rightarrow> (r, Branch 1 # t, w'))"
  | (single) c where "cond_multi_turn x = Inr False" "cond_single_turn x = Inr True"
      "last_message_content x = Inr c"
      "router x w =
         (case R c w of (r, w') \<Rightarrow> (r, [Branch 2, CallLambda x, CallRetriever c], w'))"
  | (nohist) q where "cond_multi_turn x = Inr False" "cond_single_turn x = Inr False"
      "cond_no_chat_history x = Inr True" "input_text x = Inr q"
      "router x w =
         (case R q w of (r, w') \<Rightarrow> (r, [Branch 3, CallLambda x, CallRetriever q], w'))"
  | (missing) "cond_multi_turn x = Inr False" "cond_single_turn x = Inr False"
      "cond_no_chat_history x = Inr True" "input_text x = Inl (KeyError (PStr ''input''))"
      "router x w = (Inl (KeyError (PStr ''input'')), [Branch 3, CallLambda x], w)"
  | (dflt) "cond_multi_turn x = Inr False" "cond_single_turn x = Inr False"
      "cond_no_chat_history x = Inr False"
      "router x w =
         (case rewrite_chain P L R prompt x w of (r, t, w') \<Rightarrow> (r, Branch 4 # t, w'))"
proof -
  obtain b1 where b1: "cond_multi_turn x = Inr b1"
    using conds_total(2) [of x] by (cases "cond_multi_turn x") auto
  obtain b2 where b2: "cond_single_turn x = Inr b2"
    using conds_total(3) [of x] by (cases "cond_single_turn x") auto
  obtain b3 where b3: "cond_no_chat_history x = Inr b3"
    by (simp add: cond_no_chat_history_def)
  note unf = router_unfold [OF built, of x w]
  show thesis
  proof (cases b1)
    case True
    with b1 unf show thesis by (intro multi) simp_all
  next
    case nb1: False
    show thesis
    proof (cases b2)
      case True
      with b2 obtain c where c: "last_message_content x = Inr c"
        using single_turn_content [of x] by auto
      with nb1 True b1 b2 unf show thesis
        by (intro single [of c]) (simp_all add: passthrough_eq split: prod.split)
    next
      case nb2: False
      show thesis
      proof (cases b3)
        case True
        show thesis
        proof (cases "x ''input''")
          case None
          then have "input_text x = Inl (KeyError (PStr ''input''))"
            by (simp add: input_text_def py_getitem_def)
          with nb1 nb2 True b1 b2 b3 unf show thesis
            by (intro missing) (simp_all add: passthrough_eq split: prod.split)
        next
          case (Some q)
          then have "input_text x = Inr q"
            by (simp add: input_text_def py_getitem_def)
          with nb1 nb2 True b1 b2 b3 unf show thesis
            by (intro nohist [of q]) (simp_all add: passthrough_eq split: prod.split)
        qed
      next
        case False
        with nb1 nb2 b1 b2 b3 unf show thesis
          by (intro dflt) simp_all
      qed
    qed
  qed
qed

lemma rewrite_chain_error_origin:
  assumes "rewrite_chain P L R prompt x w = (Inl e, t, w')"
  shows "(\<exists>a u. fst (prompt_invoke prompt a u) = Inl e)
         \<or> (\<exists>a u. fst (L a u) = Inl e)
         \<or> (\<exists>a u. fst (P a u) = Inl e)
         \<or> (\<exists>a u. fst (R a u) = Inl e)"
proof (cases "prompt_invoke prompt x w")
  case (Pair r1 w1)
  show ?thesis
  proof (cases r1)
    case (Inl e1)
    with Pair assms have "fst (prompt_invoke prompt x w) = Inl e"
      by (simp add: rewrite_chain_eq)
    then show ?thesis by blast
  next
    case (Inr p)
    note prompt_ok = Pair Inr
    show ?thesis
    proof (cases "L p w1")
      case (Pair r2 w2)
      note llm = this
      show ?thesis
      proof (cases r2)
        case (Inl e2)
        with prompt_ok llm assms have "fst (L p w1) = Inl e"
          by (simp add: rewrite_chain_eq)
        then show ?thesis by blast
      next
        case (Inr m)
        note llm_ok = llm Inr
        show ?thesis
        proof (cases "P m w2")
          case (Pair r3 w3)
          note parser = this
          show ?thesis
          proof (cases r3)
            case (Inl e3)
            with prompt_ok llm_ok parser assms have "fst (P m w2) = Inl e"
              by (simp add: rewrite_chain_eq)
            then show ?thesis by blast
          next
            case (Inr q)
            with prompt_ok llm_ok parser assms have "fst (R (PStr q) w3) = Inl e"
              by (simp add: rewrite_chain_eq split: prod.splits)
            then show ?thesis by blast
          qed
        qed
      qed
    qed
  qed
qed

lemma router_error_origin:
  assumes built: "create_history_aware_retriever P L R prompt = Inr router"
    and err: "router x w = (Inl e, t, w')"
  shows "e = KeyError (PStr ''input'')
         \<or> (\<exists>a u. fst (prompt_invoke prompt a u) = Inl e)
         \<or> (\<exists>a u. fst (L a u) = Inl e)
         \<or> (\<exists>a u. fst (P a u) = Inl e)
         \<or> (\<exists>a u. fst (R a u) = Inl e)"
  using built
proof (cases rule: router_cases [where x = x and w = w])
  case multi
  with err obtain s where "rewrite_chain P L R prompt x w = (Inl e, s, w')"
    by (auto split: prod.splits)
  from rewrite_chain_error_origin [OF this] show ?thesis by blast
next
  case (single c)
  with err have "fst (R c w) = Inl e"
    by (auto split: prod.splits)
  then show ?thesis by blast
next
  case (nohist q)
  with err have "fst (R q w) = Inl e"
    by (auto split: prod.splits)
  then show ?thesis by blast
next
  case missing
  with err show ?thesis by simp
next
  case dflt
  with err obtain s where "rewrite_chain P L R prompt x w = (Inl e, s, w')"
    by (auto split: prod.splits)
  from rewrite_chain_error_origin [OF this] show ?thesis by blast
qed

section \<open>Independence of the world\<close>

lemma rewrite_chain_trace_counts:
  assumes "rewrite_chain P L R prompt x w = (r, t, w')"
  shows "filter is_Branch t = []" "filter is_CallLambda t = []"
    "length (filter is_CallPrompt t) \<le> 1" "length (filter is_CallLLM t) \<le> 1"
    "length (filter is_CallParser t) \<le> 1" "length (filter is_CallRetriever t) \<le> 1"
  using assms unfolding rewrite_chain_eq
  by (auto split: prod.splits sum.splits)

lemma call_fst: "fst (call ev f a w) = fst (f a w)"
  by (simp add: call_def split: prod.split)

lemma call_trace: "fst (snd (call ev f a w)) = [ev a]"
  by (simp add: call_def split: prod.split)

lemma pipe_fst:
  "fst (pipe r1 r2 a w) =
     (case fst (r1 a w) of Inl e \<Rightarrow> Inl e | Inr b \<Rightarrow> fst (r2 b (snd (snd (r1 a w)))))"
  by (simp add: pipe_def split: prod.split sum.split)

lemma pipe_trace:
  "fst (snd (pipe r1 r2 a w)) =
     (case fst (r1 a w) of
        Inl e \<Rightarrow> fst (snd (r1 a w))
      | Inr b \<Rightarrow> fst (snd (r1 a w)) @ fst (snd (r2 b (snd (snd (r1 a w))))))"
  by (simp add: pipe_def split: prod.split sum.split)

lemma call_world_independent:
  assumes "\<forall>a u v. fst (f a u) = fst (f a v)"
  shows "fst (call ev f a u) = fst (call ev f a v)
         \<and> fst (snd (call ev f a u)) = fst (snd (call ev f a v))"
  using assms by (simp add: call_fst call_trace)

lemma as_pystr_world_independent:
  assumes "\<forall>a u v. fst (f a u) = fst (f a v)"
  shows "fst (as_pystr f a u) = fst (as_pystr f a v)"
proof -
  have "\<And>w. fst (as_pystr f a w) = map_sum id PStr (fst (f a w))"
    by (simp add: as_pystr_def split: prod.split)
  with assms [rule_format, of a u v] show ?thesis by simp
qed

lemma pipe_world_independent:
  assumes r1: "\<And>a u v. fst (r1 a u) = fst (r1 a v)
                        \<and> fst (snd (r1 a u)) = fst (snd (r1 a v))"
    and r2: "\<And>b u v. fst (r2 b u) = fst (r2 b v)
                        \<and> fst (snd (r2 b u)) = fst (snd (r2 b v))"
  shows "fst (pipe r1 r2 a u) = fst (pipe r1 r2 a v)
         \<and> fst (snd (pipe r1 r2 a u)) = fst (snd (pipe r1 r2 a v))"
proof (cases "fst (r1 a v)")
  case (Inl e)
  with r1 [of a u v] show ?thesis
    by (simp add: pipe_fst pipe_trace)
next
  case (Inr b)
  with r1 [of a u v] r2 [of b "snd (snd (r1 a u))" "snd (snd (r1 a v))"] show ?thesis
    by (simp add: pipe_fst pipe_trace)
qed

lemma runnable_branch_from_world_independent:
  assumes bs: "\<And>c a y u v. (c, a) \<in> set bs \<Longrightarrow>
                  fst (a y u) = fst (a y v) \<and> fst (snd (a y u)) = fst (snd (a y v))"
    and dflt: "\<And>y u v. fst (dflt y u) = fst (dflt y v)
                         \<and> fst (snd (dflt y u)) = fst (snd (dflt y v))"
  shows "fst (runnable_branch_from k bs dflt x u) = fst (runnable_branch_from k bs dflt x v)
         \<and> fst (snd (runnable_branch_from k bs dflt x u))
             = fst (snd (runnable_branch_from k bs dflt x v))"
  using bs
proof (induction bs arbitrary: k)
  case Nil
  from dflt [of x u v] show ?case
    by (simp add: case_prod_beta)
next
  case (Cons ca bs)
  obtain c a where ca: "ca = (c, a)" by (cases ca)
  have here: "fst (a x u) = fst (a x v) \<and> fst (snd (a x u)) = fst (snd (a x v))"
    using Cons.prems [of c a x u v] ca by simp
  have rest: "fst (runnable_branch_from (Suc k) bs dflt x u)
                = fst (runnable_branch_from (Suc k) bs dflt x v)
              \<and> fst (snd (runnable_branch_from (Suc k) bs dflt x u))
                = fst (snd (runnable_branch_from (Suc k) bs dflt x v))"
  proof (rule Cons.IH)
    fix c' a' y u' v'
    assume "(c', a') \<in> set bs"
    then show "fst (a' y u') = fst (a' y v') \<and> fst (snd (a' y u')) = fst (snd (a' y v'))"
      using Cons.prems [of c' a' y u' v'] by simp
  qed
  show ?case
  proof (cases "c x")
    case (Inl e)
    with ca show ?thesis by simp
  next
    case (Inr b)
    with ca here rest show ?thesis
      by (cases b) (simp_all add: case_prod_beta)
  qed
qed

text \<open>
  Claim C8. With collaborators whose results do not depend on the world they are called
  in, two invocations on the same turn input, started in any two worlds, give the same
  result (the same documents or the same error) and make the same calls: the same branch,
  the same arguments to every collaborator, the same query to the retriever.
\<close>

theorem routing_is_deterministic:
  assumes built: "create_history_aware_retriever P L R prompt = Inr router"
    and det_prompt: "\<forall>a u v. fst (prompt_invoke prompt a u) = fst (prompt_invoke prompt a v)"
    and det_llm: "\<forall>a u v. fst (L a u) = fst (L a v)"
    and det_parser: "\<forall>a u v. fst (P a u) = fst (P a v)"
    and det_retriever: "\<forall>a u v. fst (R a u) = fst (R a v)"
  shows "fst (router x u) = fst (router x v)
         \<and> fst (snd (router x u)) = fst (snd (router x v))"
proof -
  have rewrite: "\<And>a u v.
      fst (rewrite_chain P L R prompt a u) = fst (rewrite_chain P L R prompt a v)
      \<and> fst (snd (rewrite_chain P L R prompt a u))
        = fst (snd (rewrite_chain P L R prompt a v))"
    unfolding rewrite_chain_def
    by (intro pipe_world_independent call_world_independent allI
        as_pystr_world_independent det_prompt det_llm det_parser det_retriever)
  have router: "router = RunnableBranch
                  [(cond_multi_turn, rewrite_chain P L R prompt),
                   (cond_single_turn,
                      pipe (runnable_lambda last_message_content) (call CallRetriever R)),
                   (cond_no_chat_history,
                      pipe (runnable_lambda input_text) (call CallRetriever R))]
                  (rewrite_chain P L R prompt)"
    using built
    by (simp add: create_history_aware_retriever_def Let_def split: if_splits)
  show ?thesis
    unfolding router RunnableBranch_def
  proof (rule runnable_branch_from_world_independent)
    fix c a y u v
    assume "(c, a) \<in> set
      [(cond_multi_turn, rewrite_chain P L R prompt),
       (cond_single_turn, pipe (runnable_lambda last_message_content) (call CallRetriever R)),
       (cond_no_chat_history, pipe (runnable_lambda input_text) (call CallRetriever R))]"
    then consider (rw) "a = rewrite_chain P L R prompt"
      | (msg) "a = pipe (runnable_lambda last_message_content) (call CallRetriever R)"
      | (inp) "a = pipe (runnable_lambda input_text) (call CallRetriever R)"
      by auto
    then show "fst (a y u) = fst (a y v) \<and> fst (snd (a y u)) = fst (snd (a y v))"
    proof cases
      case rw
      then show ?thesis using rewrite by simp
    next
      case msg
      show ?thesis
        unfolding msg
        by (intro pipe_world_independent call_world_independent det_retriever)
          (simp add: runnable_lambda_def)
    next
      case inp
      show ?thesis
        unfolding inp
        by (intro pipe_world_independent call_world_independent det_retriever)
          (simp add: runnable_lambda_def)
    qed
  next
    fix y u v
    show "fst (rewrite_chain P L R prompt y u) = fst (rewrite_chain P L R prompt y v)
          \<and> fst (snd (rewrite_chain P L R prompt y u))
            = fst (snd (rewrite_chain P L R prompt y v))"
      by (rule rewrite)
  qed
qed

theorem routing_is_deterministic_witness:
  "create_history_aware_retriever example_parser example_llm example_retriever example_prompt
     = Inr example_chain
   \<and> (\<forall>a u v. fst (prompt_invoke example_prompt a u) = fst (prompt_invoke example_prompt a v))
   \<and> (\<forall>a u v. fst (example_llm a u) = fst (example_llm a v))
   \<and> (\<forall>a u v. fst (example_parser a u) = fst (example_parser a v))
   \<and> (\<forall>a u v. fst (example_retriever a u) = fst (example_retriever a v))
   \<and> fst (example_chain history_input 0) = fst (example_chain history_input 7)
   \<and> fst (snd (example_chain history_input 0)) = fst (snd (example_chain history_input 7))"
proof -
  have p: "\<forall>a u v. fst (prompt_invoke example_prompt a u) = fst (prompt_invoke example_prompt a v)"
    by (simp add: example_prompt_def)
  have l: "\<forall>a u v. fst (example_llm a u) = fst (example_llm a v)"
    by (simp add: example_llm_def)
  have s: "\<forall>a u v. fst (example_parser a u) = fst (example_parser a v)"
    by (simp add: example_parser_def)
  have r: "\<forall>a u v. fst (example_retriever a u) = fst (example_retriever a v)"
    by (simp add: example_retriever_def split: pyval.split)
  from routing_is_deterministic [OF example_chain_built p l s r, of history_input 0 7]
    p l s r example_chain_built
  show ?thesis by simp
qed

section \<open>Construction and classification\<close>

text \<open>
  Claim C5. Construction raises the \<open>ValueError\<close> exactly when the template's
  \<open>input_variables\<close> hold neither \<open>input\<close> nor \<open>messages\<close>. Otherwise it returns the
  chain, and an error of an invocation of that chain is either the \<open>KeyError\<close> of a
  missing \<open>input\<close> key or an error that one of the collaborators returned: the chain
  itself raises no \<open>ValueError\<close>.
\<close>

theorem construction_fails_iff_no_input_or_messages:
  "(isl (create_history_aware_retriever P L R prompt)
      = (''input'' \<notin> set (input_variables prompt) \<and> ''messages'' \<notin> set (input_variables prompt)))
   \<and> (isl (create_history_aware_retriever P L R prompt) \<longrightarrow>
        create_history_aware_retriever P L R prompt
          = Inl (ValueError ''Expected either `input` or `messages` to be prompt variables, but got ''
                   (input_variables prompt)))
   \<and> (\<forall>router x w e t w'.
        create_history_aware_retriever P L R prompt = Inr router \<and> router x w = (Inl e, t, w') \<longrightarrow>
          e = KeyError (PStr ''input'')
          \<or> (\<exists>a u. fst (prompt_invoke prompt a u) = Inl e)
          \<or> (\<exists>a u. fst (L a u) = Inl e)
          \<or> (\<exists>a u. fst (P a u) = Inl e)
          \<or> (\<exists>a u. fst (R a u) = Inl e))"
proof (intro conjI allI impI)
  show "isl (create_history_aware_retriever P L R prompt)
      = (''input'' \<notin> set (input_variables prompt) \<and> ''messages'' \<notin> set (input_variables prompt))"
    by (simp add: create_history_aware_retriever_def Let_def)
next
  assume "isl (create_history_aware_retriever P L R prompt)"
  then show "create_history_aware_retriever P L R prompt
          = Inl (ValueError ''Expected either `input` or `messages` to be prompt variables, but got ''
                   (input_variables prompt))"
    by (simp add: create_history_aware_retriever_def Let_def split: if_splits)
next
  fix router x w e t w'
  assume "create_history_aware_retriever P L R prompt = Inr router \<and> router x w = (Inl e, t, w')"
  then show "e = KeyError (PStr ''input'')
          \<or> (\<exists>a u. fst (prompt_invoke prompt a u) = Inl e)
          \<or> (\<exists>a u. fst (L a u) = Inl e)
          \<or> (\<exists>a u. fst (P a u) = Inl e)
          \<or> (\<exists>a u. fst (R a u) = Inl e)"
    using router_error_origin [of P L R prompt router x w e t w'] by blast
qed

theorem construction_fails_iff_no_input_or_messages_witness:
  "''input'' \<notin> set (input_variables topic_prompt)
   \<and> ''messages'' \<notin> set (input_variables topic_prompt)
   \<and> create_history_aware_retriever example_parser example_llm example_retriever topic_prompt
       = Inl (ValueError ''Expected either `input` or `messages` to be prompt variables, but got ''
                [''topic''])
   \<and> ''input'' \<in> set (input_variables example_prompt)
   \<and> \<not> isl (create_history_aware_retriever example_parser example_llm example_retriever
               example_prompt)
   \<and> create_history_aware_retriever example_parser example_llm example_retriever example_prompt
       = Inr example_chain
   \<and> example_chain no_input_key 0
       = (Inl (KeyError (PStr ''input'')), [Branch 3, CallLambda no_input_key], 0)"
proof -
  have vars: "input_variables topic_prompt = [''topic'']"
    by (simp add: topic_prompt_def)
  have neither: "''input'' \<notin> set (input_variables topic_prompt)
      \<and> ''messages'' \<notin> set (input_variables topic_prompt)"
    by (simp add: vars)
  have fails: "create_history_aware_retriever example_parser example_llm example_retriever
        topic_prompt
       = Inl (ValueError ''Expected either `input` or `messages` to be prompt variables, but got ''
                [''topic''])"
    using construction_fails_iff_no_input_or_messages
      [of example_parser example_llm example_retriever topic_prompt] neither
    by (simp add: vars)
  have inp: "''input'' \<in> set (input_variables example_prompt)"
    by (simp add: example_prompt_def)
  have ok: "\<not> isl (create_history_aware_retriever example_parser example_llm example_retriever
               example_prompt)"
    using construction_fails_iff_no_input_or_messages
      [of example_parser example_llm example_retriever example_prompt] inp
    by simp
  have run: "example_chain no_input_key 0
       = (Inl (KeyError (PStr ''input'')), [Branch 3, CallLambda no_input_key], 0)"
    using router_unfold [OF example_chain_built, of no_input_key 0]
    by (simp add: cond_multi_turn_eq cond_single_turn_eq cond_no_chat_history_def py_get_def
        passthrough_eq input_text_def py_getitem_def no_input_key_def)
  from neither fails inp ok example_chain_built run show ?thesis by simp
qed

text \<open>
  Claim C6. The classifier and the three conditions never raise, on any turn input. When
  \<open>messages\<close> is absent, not a list, an empty list or a list with an element that is not
  a message, the classifier and the two conditions built on it are false, and the chain
  runs the third branch (\<open>chat_history\<close> false) or the default branch (\<open>chat_history\<close>
  true) rather than ending with an error of classification.
\<close>

theorem malformed_messages_fall_through:
  assumes built: "create_history_aware_retriever P L R prompt = Inr router"
    and nomsgs: "\<forall>ms. x ''messages'' = Some (PList ms) \<longrightarrow>
                   ms = [] \<or> \<not> list_all isinstance_BaseMessage ms"
  shows "(\<forall>y. \<not> isl (messages_param_is_message_list y) \<and> \<not> isl (cond_multi_turn y)
              \<and> \<not> isl (cond_single_turn y) \<and> \<not> isl (cond_no_chat_history y))
         \<and> messages_param_is_message_list x = Inr False
         \<and> cond_multi_turn x = Inr False
         \<and> cond_single_turn x = Inr False
         \<and> (\<exists>r t w'. router x w =
               (r, Branch (if truthy (py_get x ''chat_history'' (PBool False)) then 4 else 3) # t,
                w'))"
proof -
  note f = no_message_list_conds [of x, OF nomsgs]
  have "\<exists>r t w'. router x w =
          (r, Branch (if truthy (py_get x ''chat_history'' (PBool False)) then 4 else 3) # t, w')"
    using router_unfold [OF built, of x w] f(2,3)
    by (simp add: cond_no_chat_history_def split: prod.split)
  with f conds_total show ?thesis by simp
qed

theorem malformed_messages_fall_through_witness:
  "create_history_aware_retriever example_parser example_llm example_retriever example_prompt
     = Inr example_chain
   \<and> mixed_messages_input ''messages''
       = Some (PList [PMessage ''user'' (PStr ''What is X?''), PStr ''What about Y?''])
   \<and> \<not> list_all isinstance_BaseMessage
          [PMessage ''user'' (PStr ''What is X?''), PStr ''What about Y?'']
   \<and> messages_param_is_message_list mixed_messages_input = Inr False
   \<and> cond_multi_turn mixed_messages_input = Inr False
   \<and> cond_single_turn mixed_messages_input = Inr False
   \<and> (\<exists>r t w'. example_chain mixed_messages_input 0 = (r, Branch 3 # t, w'))"
proof -
  have m: "mixed_messages_input ''messages''
       = Some (PList [PMessage ''user'' (PStr ''What is X?''), PStr ''What about Y?''])"
    by (simp add: mixed_messages_input_def)
  have bad: "\<not> list_all isinstance_BaseMessage
          [PMessage ''user'' (PStr ''What is X?''), PStr ''What about Y?'']"
    by simp
  have nomsgs: "\<forall>ms. mixed_messages_input ''messages'' = Some (PList ms) \<longrightarrow>
                   ms = [] \<or> \<not> list_all isinstance_BaseMessage ms"
    by (simp add: m)
  have h: "py_get mixed_messages_input ''chat_history'' (PBool False) = PBool False"
    by (simp add: py_get_def mixed_messages_input_def)
  from malformed_messages_fall_through
    [where x = mixed_messages_input and w = 0, OF example_chain_built nomsgs]
    m bad example_chain_built
  show ?thesis by (simp add: h)
qed

section \<open>One branch, errors as raised\<close>

lemma not_multi_and_single:
  "\<not> (cond_multi_turn x = Inr True \<and> cond_single_turn x = Inr True)"
  by (auto simp add: cond_multi_turn_eq cond_single_turn_eq split: option.splits pyval.splits)

text \<open>
  Claim C7. On every turn input the chain runs exactly one branch: the first, in the
  order multi-turn messages, single message, no chat history, whose condition holds, and
  the default when none does. The result, the calls and the new world are those of that
  branch alone: one branch is recorded, the first two conditions never hold together, and
  no invocation calls both a passthrough lambda and the prompt.
\<close>

theorem exactly_one_branch_runs:
  assumes built: "create_history_aware_retriever P L R prompt = Inr router"
  shows "router x w =
           (if cond_multi_turn x = Inr True then
              (case rewrite_chain P L R prompt x w of (r, t, w') \<Rightarrow> (r, Branch 1 # t, w'))
            else if cond_single_turn x = Inr True then
              (case pipe (runnable_lambda last_message_content) (call CallRetriever R) x w of
                 (r, t, w') \<Rightarrow> (r, Branch 2 # t, w'))
            else if cond_no_chat_history x = Inr True then
              (case pipe (runnable_lambda input_text) (call CallRetriever R) x w of
                 (r, t, w') \<Rightarrow> (r, Branch 3 # t, w'))
            else
              (case rewrite_chain P L R prompt x w of (r, t, w') \<Rightarrow> (r, Branch 4 # t, w')))
         \<and> length (filter is_Branch (fst (snd (router x w)))) = 1
         \<and> \<not> (cond_multi_turn x = Inr True \<and> cond_single_turn x = Inr True)
         \<and> \<not> (list_ex is_CallLambda (fst (snd (router x w)))
               \<and> list_ex is_CallPrompt (fst (snd (router x w))))"
  using built
proof (cases rule: router_cases [where x = x and w = w])
  case multi
  obtain r t w' where rw: "rewrite_chain P L R prompt x w = (r, t, w')"
    by (cases "rewrite_chain P L R prompt x w") auto
  from rewrite_chain_trace_counts(1,2) [OF rw] multi rw not_multi_and_single [of x]
  show ?thesis by (simp add: list_ex_iff filter_empty_conv)
next
  case (single c)
  then show ?thesis
    by (simp add: passthrough_eq split: prod.split)
next
  case (nohist q)
  then show ?thesis
    by (simp add: passthrough_eq split: prod.split)
next
  case missing
  then show ?thesis
    by (simp add: passthrough_eq)
next
  case dflt
  obtain r t w' where rw: "rewrite_chain P L R prompt x w = (r, t, w')"
    by (cases "rewrite_chain P L R prompt x w") auto
  from rewrite_chain_trace_counts(1,2) [OF rw] dflt rw
  show ?thesis by (simp add: list_ex_iff filter_empty_conv)
qed

theorem exactly_one_branch_runs_witness:
  "create_history_aware_retriever example_parser example_llm example_retriever example_prompt
     = Inr example_chain
   \<and> cond_multi_turn multi_turn_input = Inr True
   \<and> cond_no_chat_history multi_turn_input = Inr True
   \<and> example_chain multi_turn_input 0
      = (Inr [''doc for rephrase done''],
         [Branch 1, CallPrompt multi_turn_input, CallLLM ''rephrase'',
          CallParser ''rephrase done'', CallRetriever (PStr ''rephrase done'')],
         4)
   \<and> length (filter is_Branch (fst (snd (example_chain multi_turn_input 0)))) = 1"
proof -
  have c1: "cond_multi_turn multi_turn_input = Inr True"
    by (simp add: cond_multi_turn_eq multi_turn_input_def three_messages_def)
  have c3: "cond_no_chat_history multi_turn_input = Inr True"
    by (simp add: cond_no_chat_history_def py_get_def multi_turn_input_def)
  note one = exactly_one_branch_runs [OF example_chain_built, of multi_turn_input 0]
  have run: "example_chain multi_turn_input 0
      = (Inr [''doc for rephrase done''],
         [Branch 1, CallPrompt multi_turn_input, CallLLM ''rephrase'',
          CallParser ''rephrase done'', CallRetriever (PStr ''rephrase done'')],
         4)"
    using one c1
    by (simp add: rewrite_chain_eq example_prompt_def example_llm_def example_parser_def
        example_retriever_def eval_nat_numeral)
  from one have "length (filter is_Branch (fst (snd (example_chain multi_turn_input 0)))) = 1"
    by blast
  with c1 c3 run example_chain_built show ?thesis by simp
qed




end
